theory Spec2Isabelle
  imports Main "HOL-Library.Code_Target_Nat"
begin

section \<open>Text, cells and tables\<close>

text \<open>
  The program is \<^verbatim>\<open>excel_converter.py\<close>: one function, \<^verbatim>\<open>convert_excel\<close>, that
  reads two workbooks with pandas, builds an output table column by column and writes it.
  The embedding follows the function line by line. The pandas calls it makes are modelled
  by their documented behaviour on the tables the program builds.

  A Python \<^verbatim>\<open>str\<close> is a sequence of Unicode code points. The column names of the program
  are Chinese, and \<^verbatim>\<open>str.strip\<close> removes Unicode white space, so text is a list of code
  points here; \<open>ustr_of\<close> embeds an ASCII literal.
\<close>

type_synonym ustr = "nat list"

definition ustr_of :: "string \<Rightarrow> ustr" where
  "ustr_of s = map of_char s"

text \<open>The code points Python's \<^verbatim>\<open>str.isspace\<close> accepts, which \<^verbatim>\<open>str.strip()\<close> removes.\<close>

definition py_isspace :: "nat \<Rightarrow> bool" where
  "py_isspace c =
     ((9 \<le> c \<and> c \<le> 13) \<or> (28 \<le> c \<and> c \<le> 32) \<or> c = 0x85 \<or> c = 0xA0 \<or> c = 0x1680
      \<or> (0x2000 \<le> c \<and> c \<le> 0x200A) \<or> c = 0x2028 \<or> c = 0x2029 \<or> c = 0x202F
      \<or> c = 0x205F \<or> c = 0x3000)"

definition strip :: "ustr \<Rightarrow> ustr" where
  "strip s = rev (dropWhile py_isspace (rev (dropWhile py_isspace s)))"

text \<open>
  A cell holds a missing value (pandas' NaN), a text, or any other scalar (a number, a
  date, a truth value). The type \<open>'n\<close> of the other scalars is left open; their rendering
  by Python's \<^verbatim>\<open>str()\<close> is the parameter \<open>str_of\<close> of the functions that need it.
\<close>

datatype 'n cell = NaN | Text ustr | Scalar 'n

fun astype_str :: "('n \<Rightarrow> ustr) \<Rightarrow> 'n cell \<Rightarrow> ustr" where
  "astype_str str_of NaN = ustr_of ''nan''"
| "astype_str str_of (Text s) = s"
| "astype_str str_of (Scalar x) = str_of x"

fun is_Text :: "'n cell \<Rightarrow> bool" where
  "is_Text (Text s) = True"
| "is_Text c = False"

text \<open>
  A DataFrame: the length of its row index and its columns in order, each a label with
  one cell per row. Every table of the program carries pandas' default index
  \<open>0, 1, ..., n - 1\<close> (\<^verbatim>\<open>read_excel\<close> creates it, \<^verbatim>\<open>reset_index(drop=True)\<close> and
  \<^verbatim>\<open>iloc[:k]\<close> keep it), so a row's label is its position.
\<close>

record 'n dataframe =
  nrows :: nat
  cols :: "(ustr \<times> 'n cell list) list"

definition labels :: "'n dataframe \<Rightarrow> ustr list" where
  "labels df = map fst (cols df)"

text \<open>
  \<^verbatim>\<open>c in df.columns\<close> followed by \<^verbatim>\<open>df[c]\<close> is one lookup: \<open>column df c = Some v\<close>
  when the label is present, \<open>None\<close> when it is not.
\<close>

definition column :: "'n dataframe \<Rightarrow> ustr \<Rightarrow> 'n cell list option" where
  "column df c = map_of (cols df) c"

text \<open>
  The tables pandas builds: one cell per row in every column, and no label twice
  (\<^verbatim>\<open>read_excel\<close> renames a repeated header).
\<close>

definition wf_dataframe :: "'n dataframe \<Rightarrow> bool" where
  "wf_dataframe df =
     (distinct (labels df) \<and> list_all (\<lambda>p. length (snd p) = nrows df) (cols df))"

text \<open>
  \<^verbatim>\<open>d[k] = v\<close> on an insertion-ordered mapping (a Python dict, the columns of a
  DataFrame): an existing key keeps its place and takes the new value, a new key goes last.
\<close>

fun setitem :: "('k \<times> 'v) list \<Rightarrow> 'k \<Rightarrow> 'v \<Rightarrow> ('k \<times> 'v) list" where
  "setitem [] k v = [(k, v)]"
| "setitem ((k', v') # d) k v = (if k' = k then (k, v) # d else (k', v') # setitem d k v)"

datatype error = KeyError ustr | SheetIndexError nat | OSError

section \<open>Loading the input table (lines 68 to 92)\<close>

type_synonym 'n sheet = "'n cell list list"
type_synonym 'n workbook = "'n sheet list"

definition sheet_to_read :: "'n workbook \<Rightarrow> nat" where
  "sheet_to_read excel_file = (if length excel_file \<ge> 2 then 1 else 0)"

fun decimal :: "nat \<Rightarrow> ustr" where
  "decimal n = (if n < 10 then [48 + n] else decimal (n div 10) @ [48 + n mod 10])"

declare decimal.simps [simp del]

text \<open>
  The label pandas gives a column from its header cell: the text itself, and
  \<^verbatim>\<open>Unnamed: j\<close> for an empty cell of column \<open>j\<close>. Labels are text in this model; a
  header cell holding another scalar is rendered as text.
\<close>

fun header_label :: "('n \<Rightarrow> ustr) \<Rightarrow> nat \<Rightarrow> 'n cell \<Rightarrow> ustr" where
  "header_label str_of j (Text s) = s"
| "header_label str_of j NaN = ustr_of ''Unnamed: '' @ decimal j"
| "header_label str_of j (Scalar x) = str_of x"

definition cell_at :: "'n cell list \<Rightarrow> nat \<Rightarrow> 'n cell" where
  "cell_at r j = (if j < length r then r ! j else NaN)"

text \<open>
  \<^verbatim>\<open>pd.read_excel(file, skiprows=k, sheet_name=i)\<close>: the first \<open>k\<close> rows of sheet \<open>i\<close> are
  skipped, the next row is the header, the rows after it are the data. A sheet with no
  row left gives the empty table.
\<close>

definition read_excel ::
  "('n \<Rightarrow> ustr) \<Rightarrow> nat \<Rightarrow> nat \<Rightarrow> 'n workbook \<Rightarrow> error + 'n dataframe" where
  "read_excel str_of skiprows sheet_name file =
     (if sheet_name < length file then
        (case drop skiprows (file ! sheet_name) of
           [] \<Rightarrow> Inr \<lparr>nrows = 0, cols = []\<rparr>
         | header # rows \<Rightarrow>
             Inr \<lparr>nrows = length rows,
                  cols = map (\<lambda>j. (header_label str_of j (cell_at header j),
                                    map (\<lambda>r. cell_at r j) rows))
                           [0..<length header]\<rparr>)
      else Inl (SheetIndexError sheet_name))"

text \<open>
  Lines 82 and 83: \<^verbatim>\<open>if len(df_input) > 0: df_input = df_input.drop(index=0).reset_index(drop=True)\<close>.
\<close>

definition drop_row0 :: "'n dataframe \<Rightarrow> 'n dataframe" where
  "drop_row0 df =
     (if nrows df > 0
      then \<lparr>nrows = nrows df - 1, cols = map (\<lambda>(l, v). (l, tl v)) (cols df)\<rparr>
      else df)"

text \<open>
  Lines 86 and 87: \<^verbatim>\<open>if not df_input.empty and len(df_input.columns) > 0:
  df_input.columns = df_input.columns.str.strip()\<close>. A DataFrame is \<^verbatim>\<open>empty\<close> when it
  has no row or no column.
\<close>

definition empty_df :: "'n dataframe \<Rightarrow> bool" where
  "empty_df df = (nrows df = 0 \<or> cols df = [])"

definition strip_columns :: "'n dataframe \<Rightarrow> 'n dataframe" where
  "strip_columns df =
     (if \<not> empty_df df \<and> length (cols df) > 0
      then df\<lparr>cols := map (\<lambda>(l, v). (strip l, v)) (cols df)\<rparr>
      else df)"

text \<open>
  \<^verbatim>\<open>df[c] = series\<close>. A frame with an empty index takes the index of a non-empty series
  (its existing columns are refilled with NaN); otherwise the series is aligned with the
  frame's index \<open>0 ..< nrows\<close>: cut to it, and filled with NaN past its own end.
\<close>

definition setitem_series :: "'n dataframe \<Rightarrow> ustr \<Rightarrow> 'n cell list \<Rightarrow> 'n dataframe" where
  "setitem_series df c v =
     (let df' = (if nrows df = 0 \<and> v \<noteq> []
                 then \<lparr>nrows = length v,
                       cols = map (\<lambda>(l, old). (l, replicate (length v) NaN)) (cols df)\<rparr>
                 else df)
      in df'\<lparr>cols := setitem (cols df') c
                         (take (nrows df') v @ replicate (nrows df' - length v) NaN)\<rparr>)"

text \<open>\<^verbatim>\<open>df[c] = value\<close> for a scalar: the value in every row of the frame's index.\<close>

definition setitem_scalar :: "'n dataframe \<Rightarrow> ustr \<Rightarrow> 'n cell \<Rightarrow> 'n dataframe" where
  "setitem_scalar df c x = df\<lparr>cols := setitem (cols df) c (replicate (nrows df) x)\<rparr>"

text \<open>
  Lines 91 and 92. The comment above them reads "Strip whitespace from string data in all
  columns"; the loop assigns each object column to itself:
  \<^verbatim>\<open>for column in df_input.select_dtypes(include=['object']).columns:
      df_input[column] = df_input[column]\<close>.
  A column has dtype object when it holds a text.
\<close>

definition object_columns :: "'n dataframe \<Rightarrow> ustr list" where
  "object_columns df = map fst (filter (\<lambda>p. list_ex is_Text (snd p)) (cols df))"

definition reassign_object_columns :: "'n dataframe \<Rightarrow> 'n dataframe" where
  "reassign_object_columns df =
     fold (\<lambda>c d. case column d c of Some v \<Rightarrow> setitem_series d c v | None \<Rightarrow> d)
       (object_columns df) df"

section \<open>The row filter (lines 96 to 105)\<close>

definition NO_label :: ustr where
  "NO_label = ustr_of ''NO.''"

text \<open>\<^verbatim>\<open>df.iloc[:k]\<close>: the rows at positions below \<open>k\<close>.\<close>

definition iloc_upto :: "'n dataframe \<Rightarrow> nat \<Rightarrow> 'n dataframe" where
  "iloc_upto df k = \<lparr>nrows = min k (nrows df), cols = map (\<lambda>(l, v). (l, take k v)) (cols df)\<rparr>"

text \<open>\<^verbatim>\<open>.isin(['nan', '', ' '])\<close> on the cleaned item numbers.\<close>

definition isin_blank :: "'n cell \<Rightarrow> bool" where
  "isin_blank c = (c \<in> set [Text (ustr_of ''nan''), Text [], Text (ustr_of '' '')])"

text \<open>
  \<^verbatim>\<open>df_input['NO.'].astype(str).str.strip()\<close> replaces the column in place; the labels
  of the rows that \<^verbatim>\<open>isin\<close> selects are the positions of the blank item numbers, and the
  table is cut before the first of them.
\<close>

definition clean_no :: "('n \<Rightarrow> ustr) \<Rightarrow> 'n cell list \<Rightarrow> 'n cell list" where
  "clean_no str_of v = map (\<lambda>c. Text (strip (astype_str str_of c))) v"

definition row_filter :: "('n \<Rightarrow> ustr) \<Rightarrow> 'n dataframe \<Rightarrow> 'n dataframe" where
  "row_filter str_of df =
     (case column df NO_label of
        Some v \<Rightarrow>
          (let df1 = setitem_series df NO_label (clean_no str_of v);
               empty_no_index =
                 map fst (filter (\<lambda>(i, c). isin_blank c)
                   (enumerate 0 (case column df1 NO_label of Some w \<Rightarrow> w | None \<Rightarrow> [])))
           in (case empty_no_index of
                 [] \<Rightarrow> df1
               | first_empty_index # _ \<Rightarrow> iloc_upto df1 first_empty_index))
      | None \<Rightarrow> df)"

text \<open>The input table as line 107 finds it.\<close>

definition load_input :: "('n \<Rightarrow> ustr) \<Rightarrow> 'n workbook \<Rightarrow> error + 'n dataframe" where
  "load_input str_of input_file =
     (case read_excel str_of 9 (sheet_to_read input_file) input_file of
        Inl e \<Rightarrow> Inl e
      | Inr df \<Rightarrow> Inr (reassign_object_columns (strip_columns (drop_row0 df))))"

section \<open>Configuration (lines 12 to 42)\<close>

text \<open>
  The four settings \<^verbatim>\<open>config.py\<close> may override. \<^verbatim>\<open>FIXED_COLUMNS\<close> is a dict: its items
  in insertion order, no key twice.
\<close>

record 'n config =
  PRESERVED_COLUMNS :: "ustr list"
  MATERIAL_CODE_COLUMN :: ustr
  MATCHED_COLUMNS :: "ustr list"
  FIXED_COLUMNS :: "(ustr \<times> 'n cell) list"

definition wf_config :: "'n config \<Rightarrow> bool" where
  "wf_config cfg = distinct (map fst (FIXED_COLUMNS cfg))"

text \<open>The defaults of lines 12 to 21, used when \<^verbatim>\<open>config.py\<close> is absent.\<close>

definition default_config :: "'n config" where
  "default_config =
     \<lparr>PRESERVED_COLUMNS = [ustr_of ''Column1'', ustr_of ''Column2'', ustr_of ''Column3''],
      MATERIAL_CODE_COLUMN = ustr_of ''MaterialCode'',
      MATCHED_COLUMNS = [ustr_of ''MatchedColumn1'', ustr_of ''MatchedColumn2''],
      FIXED_COLUMNS = [(ustr_of ''FixedColumn1'', Text (ustr_of ''Fixed Value 1'')),
                       (ustr_of ''FixedColumn2'', Text (ustr_of ''Fixed Value 2''))]\<rparr>"

text \<open>
  The Chinese headers, by their code points: item number, product code, product name,
  model number, declaration elements, quantity, unit, unit price, total price, currency,
  country (region) of origin, final destination country (region), domestic source, tax
  exemption, net weight.
\<close>

definition item_number :: ustr where "item_number = [0x9879, 0x53F7]"
definition product_code :: ustr where "product_code = [0x5546, 0x54C1, 0x7F16, 0x53F7]"
definition product_name :: ustr where "product_name = [0x54C1, 0x540D]"
definition model_number :: ustr where "model_number = [0x578B, 0x53F7]"
definition declaration_elements :: ustr where
  "declaration_elements = [0x7533, 0x62A5, 0x8981, 0x7D20]"
definition quantity :: ustr where "quantity = [0x6570, 0x91CF]"
definition unit_name :: ustr where "unit_name = [0x5355, 0x4F4D]"
definition unit_price :: ustr where "unit_price = [0x5355, 0x4EF7]"
definition total_price :: ustr where "total_price = [0x603B, 0x4EF7]"
definition currency :: ustr where "currency = [0x5E01, 0x5236]"
definition origin_country :: ustr where
  "origin_country = [0x539F, 0x4EA7, 0x56FD, 0xFF08, 0x5730, 0x533A, 0xFF09]"
definition destination_country :: ustr where
  "destination_country =
     [0x6700, 0x7EC8, 0x76EE, 0x7684, 0x56FD, 0xFF08, 0x5730, 0x533A, 0xFF09]"
definition domestic_source :: ustr where
  "domestic_source = [0x5883, 0x5185, 0x8D27, 0x6E90, 0x5730]"
definition tax_exemption :: ustr where "tax_exemption = [0x5F81, 0x514D]"
definition net_weight :: ustr where "net_weight = [0x51C0, 0x91CD]"

text \<open>\<^verbatim>\<open>COLUMN_MAPPING\<close> (lines 25 to 34), in the order a loop over its items sees.\<close>

definition COLUMN_MAPPING :: "(ustr \<times> ustr) list" where
  "COLUMN_MAPPING =
     [(ustr_of ''NO.'', item_number),
      (ustr_of ''DESCRIPTION'', product_name),
      (ustr_of ''Model NO.'', model_number),
      (ustr_of ''Qty'', quantity),
      (ustr_of ''Unit'', unit_name),
      (ustr_of ''Amount'', total_price),
      (ustr_of ''net weight'', net_weight),
      (ustr_of ''Unit Price'', unit_price)]"

text \<open>\<^verbatim>\<open>column_order\<close> (lines 119 to 135).\<close>

definition column_order :: "ustr list" where
  "column_order =
     [item_number, product_code, product_name, model_number, declaration_elements,
      quantity, unit_name, unit_price, total_price, currency, origin_country,
      destination_country, domestic_source, tax_exemption, net_weight]"

section \<open>Building the output table (lines 115 to 188)\<close>

text \<open>What the function prints, one constructor for each \<^verbatim>\<open>print\<close> of the source.\<close>

datatype 'n msg =
    ReadingInput
  | InputColumns "ustr list"
  | ReadingReference
  | WarnColumnNotFound ustr
  | LookingForCode ustr ustr
  | FoundCodeColumns
  | CreatingMapping ustr
  | WarnMatchedNotFound ustr
  | ApplyingMapping ustr
  | WarnCodeColumnMissing
  | InputColumnsAvailable "ustr list"
  | ReferenceColumnsAvailable "ustr list"
  | AddingFixed ustr "'n cell"
  | Reordering
  | ColumnOrder "ustr list"
  | FinalColumns "ustr list"
  | Saving
  | Completed

text \<open>
  The inner loop of lines 140 to 143: the first item \<open>(eng_col, cn_col)\<close> of the mapping
  with \<open>eng_col\<close> a column of the input and \<open>cn_col\<close> the wanted name gives the source
  column; \<open>None\<close> is the loop's \<^verbatim>\<open>else\<close>.
\<close>

fun find_source ::
  "(ustr \<times> ustr) list \<Rightarrow> 'n dataframe \<Rightarrow> ustr \<Rightarrow> 'n cell list option" where
  "find_source [] df_input col = None"
| "find_source ((eng_col, cn_col) # rest) df_input col =
     (case column df_input eng_col of
        Some v \<Rightarrow> if cn_col = col then Some v else find_source rest df_input col
      | None \<Rightarrow> find_source rest df_input col)"

text \<open>The loop of lines 139 to 146 over \<^verbatim>\<open>PRESERVED_COLUMNS\<close>.\<close>

fun project ::
  "'n dataframe \<Rightarrow> ustr list \<Rightarrow> 'n dataframe \<Rightarrow> 'n msg list \<times> 'n dataframe" where
  "project df_input [] df_output = ([], df_output)"
| "project df_input (col # rest) df_output =
     (case find_source COLUMN_MAPPING df_input col of
        Some v \<Rightarrow> project df_input rest (setitem_series df_output col v)
      | None \<Rightarrow>
          (case project df_input rest df_output of
             (printed, out) \<Rightarrow> (WarnColumnNotFound col # printed, out)))"

text \<open>
  Line 150: \<^verbatim>\<open>next((k for k, v in COLUMN_MAPPING.items() if v == MATERIAL_CODE_COLUMN),
  MATERIAL_CODE_COLUMN)\<close>.
\<close>

definition material_code_eng :: "ustr \<Rightarrow> ustr" where
  "material_code_eng code_column =
     (case filter (\<lambda>(k, v). v = code_column) COLUMN_MAPPING of
        (k, v) # _ \<Rightarrow> k
      | [] \<Rightarrow> code_column)"

text \<open>
  \<^verbatim>\<open>series.to_dict()\<close> of a series with index \<open>keys\<close> and values \<open>vals\<close>: the pairs are
  stored one after the other, so a later pair replaces an earlier one with the same key.
\<close>

definition to_dict :: "'k list \<Rightarrow> 'v list \<Rightarrow> ('k \<times> 'v) list" where
  "to_dict keys vals = fold (\<lambda>(k, v) d. setitem d k v) (zip keys vals) []"

text \<open>
  Line 163: \<^verbatim>\<open>df_reference.set_index(MATERIAL_CODE_COLUMN)[col].to_dict()\<close>.
  \<^verbatim>\<open>set_index\<close> moves the key column out of the columns into the index, so asking the
  result for the key column itself raises \<^verbatim>\<open>KeyError\<close>.
\<close>

definition set_index ::
  "'n dataframe \<Rightarrow> ustr \<Rightarrow> error + ('n cell list \<times> 'n dataframe)" where
  "set_index df key =
     (case column df key of
        None \<Rightarrow> Inl (KeyError key)
      | Some keys \<Rightarrow> Inr (keys, df\<lparr>cols := filter (\<lambda>p. fst p \<noteq> key) (cols df)\<rparr>))"

definition reference_mapping ::
  "'n dataframe \<Rightarrow> ustr \<Rightarrow> ustr \<Rightarrow> error + ('n cell \<times> 'n cell) list" where
  "reference_mapping df_reference code_column col =
     (case set_index df_reference code_column of
        Inl e \<Rightarrow> Inl e
      | Inr (keys, indexed) \<Rightarrow>
          (case column indexed col of
             None \<Rightarrow> Inl (KeyError col)
           | Some vals \<Rightarrow> Inr (to_dict keys vals)))"

text \<open>The loop of lines 160 to 165, filling \<^verbatim>\<open>reference_dict\<close>.\<close>

type_synonym 'n reference_dict = "(ustr \<times> ('n cell \<times> 'n cell) list) list"

fun build_reference_dict ::
  "'n dataframe \<Rightarrow> ustr \<Rightarrow> ustr list \<Rightarrow> 'n reference_dict \<Rightarrow>
   'n msg list \<times> (error + 'n reference_dict)" where
  "build_reference_dict df_reference code_column [] reference_dict = ([], Inr reference_dict)"
| "build_reference_dict df_reference code_column (col # rest) reference_dict =
     (if col \<in> set (labels df_reference) then
        (case reference_mapping df_reference code_column col of
           Inl e \<Rightarrow> ([CreatingMapping col], Inl e)
         | Inr d \<Rightarrow>
             (case build_reference_dict df_reference code_column rest
                     (setitem reference_dict col d) of
                (printed, r) \<Rightarrow> (CreatingMapping col # printed, r)))
      else
        (case build_reference_dict df_reference code_column rest reference_dict of
           (printed, r) \<Rightarrow> (WarnMatchedNotFound col # printed, r)))"

text \<open>
  \<^verbatim>\<open>series.map(d)\<close> for a dict \<open>d\<close>: each value is looked up as a key, and a value that
  is no key of \<open>d\<close> gives NaN.
\<close>

definition map_series :: "'n cell list \<Rightarrow> ('n cell \<times> 'n cell) list \<Rightarrow> 'n cell list" where
  "map_series v d = map (\<lambda>c. case map_of d c of Some x \<Rightarrow> x | None \<Rightarrow> NaN) v"

text \<open>The loop of lines 168 to 172.\<close>

fun apply_mappings ::
  "'n cell list \<Rightarrow> 'n reference_dict \<Rightarrow> ustr list \<Rightarrow> 'n dataframe \<Rightarrow>
   'n msg list \<times> 'n dataframe" where
  "apply_mappings codes reference_dict [] df_output = ([], df_output)"
| "apply_mappings codes reference_dict (col # rest) df_output =
     (case map_of reference_dict col of
        Some d \<Rightarrow>
          (case apply_mappings codes reference_dict rest
                  (setitem_series df_output col (map_series codes d)) of
             (printed, out) \<Rightarrow> (ApplyingMapping col # printed, out))
      | None \<Rightarrow> apply_mappings codes reference_dict rest df_output)"

text \<open>Lines 150 to 177: the lookup join, or its warning when a code column is missing.\<close>

definition join ::
  "'n config \<Rightarrow> 'n dataframe \<Rightarrow> 'n dataframe \<Rightarrow> 'n dataframe \<Rightarrow>
   'n msg list \<times> (error + 'n dataframe)" where
  "join cfg df_input df_reference df_output =
     (let code_column = MATERIAL_CODE_COLUMN cfg;
          code_eng = material_code_eng code_column;
          looking = LookingForCode code_eng code_column
      in (case column df_input code_eng of
            Some codes \<Rightarrow>
              (if code_column \<in> set (labels df_reference) then
                 (case build_reference_dict df_reference code_column (MATCHED_COLUMNS cfg) [] of
                    (printed, Inl e) \<Rightarrow> (looking # FoundCodeColumns # printed, Inl e)
                  | (printed, Inr reference_dict) \<Rightarrow>
                      (case apply_mappings codes reference_dict (MATCHED_COLUMNS cfg) df_output of
                         (printed', out) \<Rightarrow>
                           (looking # FoundCodeColumns # printed @ printed', Inr out)))
               else
                 ([looking, WarnCodeColumnMissing, InputColumnsAvailable (labels df_input),
                   ReferenceColumnsAvailable (labels df_reference)], Inr df_output))
          | None \<Rightarrow>
              ([looking, WarnCodeColumnMissing, InputColumnsAvailable (labels df_input),
                ReferenceColumnsAvailable (labels df_reference)], Inr df_output)))"

text \<open>The loop of lines 180 to 182 over the items of \<^verbatim>\<open>FIXED_COLUMNS\<close>.\<close>

fun add_fixed ::
  "(ustr \<times> 'n cell) list \<Rightarrow> 'n dataframe \<Rightarrow> 'n msg list \<times> 'n dataframe" where
  "add_fixed [] df_output = ([], df_output)"
| "add_fixed ((col, val) # rest) df_output =
     (case add_fixed rest (setitem_scalar df_output col val) of
        (printed, out) \<Rightarrow> (AddingFixed col val # printed, out))"

text \<open>
  Line 187, \<^verbatim>\<open>df_output.reindex(columns=column_order)\<close>: the columns named, in that
  order; a name the frame has no column for gives a column of NaN.
\<close>

definition reindex_columns :: "'n dataframe \<Rightarrow> ustr list \<Rightarrow> 'n dataframe" where
  "reindex_columns df order =
     df\<lparr>cols := map (\<lambda>c. (c, case column df c of
                                 Some v \<Rightarrow> v
                               | None \<Rightarrow> replicate (nrows df) NaN)) order\<rparr>"

text \<open>
  The accumulated table before line 187: \<^verbatim>\<open>pd.DataFrame()\<close>, then the preserved, the
  matched and the fixed columns, with everything printed on the way.
\<close>

definition accumulate ::
  "'n config \<Rightarrow> 'n dataframe \<Rightarrow> 'n dataframe \<Rightarrow> 'n msg list \<times> (error + 'n dataframe)" where
  "accumulate cfg df_input df_reference =
     (case project df_input (PRESERVED_COLUMNS cfg) \<lparr>nrows = 0, cols = []\<rparr> of
        (printed1, out1) \<Rightarrow>
          (case join cfg df_input df_reference out1 of
             (printed2, Inl e) \<Rightarrow> (printed1 @ printed2, Inl e)
           | (printed2, Inr out2) \<Rightarrow>
               (case add_fixed (FIXED_COLUMNS cfg) out2 of
                  (printed3, out3) \<Rightarrow> (printed1 @ printed2 @ printed3, Inr out3))))"

section \<open>The whole run (lines 44 to 201)\<close>

text \<open>
  What the run depends on besides its arguments: whether \<^verbatim>\<open>os.name\<close> is \<^verbatim>\<open>'nt'\<close>, and
  whether \<^verbatim>\<open>os.startfile\<close> raises \<^verbatim>\<open>OSError\<close> there (it does when no application is
  associated with the file). Reading and writing the files themselves is taken to succeed.
\<close>

record env =
  os_name_nt :: bool
  startfile_raises :: bool

text \<open>
  What a run leaves: the lines printed, the table written to the output file if line 192
  was reached, and the function's result, the returned table or the exception raised.
\<close>

record 'n outcome =
  stdout :: "'n msg list"
  written :: "'n dataframe option"
  returned :: "error + 'n dataframe"

text \<open>Lines 114 to 201, from the loaded tables on.\<close>

definition transform ::
  "env \<Rightarrow> 'n config \<Rightarrow> 'n dataframe \<Rightarrow> 'n dataframe \<Rightarrow> 'n outcome" where
  "transform e cfg df_input df_reference =
     (case accumulate cfg df_input df_reference of
        (printed, Inl err) \<Rightarrow> \<lparr>stdout = printed, written = None, returned = Inl err\<rparr>
      | (printed, Inr acc) \<Rightarrow>
          (let df_output = reindex_columns acc column_order;
               printed' = printed @ [Reordering, ColumnOrder column_order,
                            FinalColumns (labels df_output), Saving, Completed]
           in \<lparr>stdout = printed', written = Some df_output,
                returned = (if os_name_nt e \<and> startfile_raises e then Inl OSError
                            else Inr df_output)\<rparr>))"

definition convert_excel ::
  "env \<Rightarrow> ('n \<Rightarrow> ustr) \<Rightarrow> 'n config \<Rightarrow> 'n workbook \<Rightarrow> 'n workbook \<Rightarrow> 'n outcome" where
  "convert_excel e str_of cfg input_file reference_file =
     (case load_input str_of input_file of
        Inl err \<Rightarrow> \<lparr>stdout = [ReadingInput], written = None, returned = Inl err\<rparr>
      | Inr loaded \<Rightarrow>
          (let df_input = row_filter str_of loaded;
               printed = [ReadingInput, InputColumns (labels df_input), ReadingReference]
           in (case read_excel str_of 0 0 reference_file of
                 Inl err \<Rightarrow> \<lparr>stdout = printed, written = None, returned = Inl err\<rparr>
               | Inr df_reference \<Rightarrow>
                   (let r = transform e cfg df_input df_reference
                    in r\<lparr>stdout := printed @ stdout r\<rparr>))))"

section \<open>Example tables\<close>

text \<open>
  Small tables and workbooks on which the theorems below are instantiated. Their other
  scalars are natural numbers, rendered in decimal.
\<close>

definition example_items :: "nat dataframe" where
  "example_items =
     \<lparr>nrows = 4,
      cols = [(ustr_of ''NO.'', [Text (ustr_of ''1''), Text (ustr_of ''2''), Text [], Text (ustr_of ''4'')]),
              (ustr_of ''Qty'', [Scalar 10, Scalar 20, NaN, Scalar 40])]\<rparr>"

definition example_banner :: "nat sheet" where
  "example_banner = [[Text (ustr_of ''INVOICE'')], [], [], [], [], [], [], [], []]"


definition example_input :: "nat dataframe" where
  "example_input =
     \<lparr>nrows = 2,
      cols = [(ustr_of ''NO.'', [Text (ustr_of ''1''), Text (ustr_of ''2'')]),
              (ustr_of ''DESCRIPTION'', [Text (ustr_of ''pen''), Text (ustr_of ''ink'')]),
              (ustr_of ''Code'', [Text (ustr_of ''A1''), Text (ustr_of ''B7'')])]\<rparr>"

definition example_reference :: "nat dataframe" where
  "example_reference =
     \<lparr>nrows = 3,
      cols = [(ustr_of ''Code'', [Text (ustr_of ''A1''), Text (ustr_of ''A2''), Text (ustr_of ''A1'')]),
              (product_code, [Scalar 8471, Scalar 9999, Scalar 8473])]\<rparr>"

definition example_config :: "nat config" where
  "example_config =
     \<lparr>PRESERVED_COLUMNS = [item_number, product_name, net_weight],
      MATERIAL_CODE_COLUMN = ustr_of ''Code'',
      MATCHED_COLUMNS = [product_code, declaration_elements],
      FIXED_COLUMNS = [(currency, Text (ustr_of ''USD'')),
                       (product_name, Text (ustr_of ''GOODS'')),
                       (ustr_of ''FixedColumn1'', Text (ustr_of ''Fixed Value 1''))]\<rparr>"

definition example_env :: env where
  "example_env = \<lparr>os_name_nt = False, startfile_raises = False\<rparr>"

definition example_output :: "nat dataframe" where
  "example_output =
     \<lparr>nrows = 2,
      cols = [(item_number, [Text (ustr_of ''1''), Text (ustr_of ''2'')]),
              (product_code, [Scalar 8473, NaN]),
              (product_name, [Text (ustr_of ''GOODS''), Text (ustr_of ''GOODS'')]),
              (model_number, [NaN, NaN]),
              (declaration_elements, [NaN, NaN]),
              (quantity, [NaN, NaN]),
              (unit_name, [NaN, NaN]),
              (unit_price, [NaN, NaN]),
              (total_price, [NaN, NaN]),
              (currency, [Text (ustr_of ''USD''), Text (ustr_of ''USD'')]),
              (origin_country, [NaN, NaN]),
              (destination_country, [NaN, NaN]),
              (domestic_source, [NaN, NaN]),
              (tax_exemption, [NaN, NaN]),
              (net_weight, [NaN, NaN])]\<rparr>"

definition example_unmapped_input :: "nat dataframe" where
  "example_unmapped_input =
     \<lparr>nrows = 3,
      cols = [(ustr_of ''Item'', [Scalar 1, Scalar 2, Scalar 3]),
              (ustr_of ''MaterialCode'', [Text (ustr_of ''A1''), Text (ustr_of ''A2''), Text (ustr_of ''A3'')])]\<rparr>"

definition example_unmatched_reference :: "nat dataframe" where
  "example_unmatched_reference =
     \<lparr>nrows = 1,
      cols = [(ustr_of ''MaterialCode'', [Text (ustr_of ''A1'')]),
              (ustr_of ''Duty'', [Scalar 5])]\<rparr>"


definition example_code_input_file :: "nat workbook" where
  "example_code_input_file =
     [example_banner @
      [[Text (ustr_of ''NO.''), Text (ustr_of ''Code'')],
       [Text (ustr_of ''(item)''), Text (ustr_of ''(code)'')],
       [Text (ustr_of ''1''), Text (ustr_of ''A1 '')],
       [Text (ustr_of ''2''), Text (ustr_of ''A1'')]]]"

definition example_code_reference_file :: "nat workbook" where
  "example_code_reference_file =
     [[[Text (ustr_of ''Code''), Text product_code],
       [Text (ustr_of ''A1''), Scalar 8471],
       [Text (ustr_of ''B7''), Scalar 3926]]]"

definition example_code_config :: "nat config" where
  "example_code_config =
     \<lparr>PRESERVED_COLUMNS = [item_number],
      MATERIAL_CODE_COLUMN = ustr_of ''Code'',
      MATCHED_COLUMNS = [product_code],
      FIXED_COLUMNS = []\<rparr>"

definition example_code_table :: "nat dataframe" where
  "example_code_table =
     \<lparr>nrows = 2,
      cols = [(ustr_of ''NO.'', [Text (ustr_of ''1''), Text (ustr_of ''2'')]),
              (ustr_of ''Code'', [Text (ustr_of ''A1 ''), Text (ustr_of ''A1'')])]\<rparr>"

definition example_code_reference :: "nat dataframe" where
  "example_code_reference =
     \<lparr>nrows = 2,
      cols = [(ustr_of ''Code'', [Text (ustr_of ''A1''), Text (ustr_of ''B7'')]),
              (product_code, [Scalar 8471, Scalar 3926])]\<rparr>"

definition example_code_output :: "nat dataframe" where
  "example_code_output =
     \<lparr>nrows = 2,
      cols = [(item_number, [Text (ustr_of ''1''), Text (ustr_of ''2'')]),
              (product_code, [NaN, Scalar 8471]),
              (product_name, [NaN, NaN]),
              (model_number, [NaN, NaN]),
              (declaration_elements, [NaN, NaN]),
              (quantity, [NaN, NaN]),
              (unit_name, [NaN, NaN]),
              (unit_price, [NaN, NaN]),
              (total_price, [NaN, NaN]),
              (currency, [NaN, NaN]),
              (origin_country, [NaN, NaN]),
              (destination_country, [NaN, NaN]),
              (domestic_source, [NaN, NaN]),
              (tax_exemption, [NaN, NaN]),
              (net_weight, [NaN, NaN])]\<rparr>"

section \<open>Facts about the building blocks\<close>

text \<open>
  What holds of \<^verbatim>\<open>df_output\<close> while columns of \<open>n\<close> cells are assigned to it: it is still
  the empty \<^verbatim>\<open>pd.DataFrame()\<close>, or it has \<open>n\<close> rows; its columns have \<open>n\<close> cells.
\<close>

definition acc_inv :: "nat \<Rightarrow> 'n dataframe \<Rightarrow> bool" where
  "acc_inv n df =
     ((nrows df = n \<or> (nrows df = 0 \<and> cols df = [])) \<and>
      list_all (\<lambda>p. length (snd p) = n) (cols df))"

lemmas name_defs =
  ustr_of_def item_number_def product_code_def product_name_def model_number_def
  declaration_elements_def quantity_def unit_name_def unit_price_def total_price_def
  currency_def origin_country_def destination_country_def domestic_source_def
  tax_exemption_def net_weight_def

lemmas run_defs =
  transform_def accumulate_def join_def Let_def column_def labels_def material_code_eng_def
  COLUMN_MAPPING_def column_order_def setitem_series_def setitem_scalar_def
  reference_mapping_def set_index_def to_dict_def map_series_def reindex_columns_def

lemma map_of_setitem: "map_of (setitem d k v) x = (if x = k then Some v else map_of d x)"
  by (induction d) auto

lemma keys_setitem: "fst ` set (setitem d k v) = insert k (fst ` set d)"
proof -
  have "map_of (setitem d k v) = (map_of d)(k \<mapsto> v)"
    by (rule ext) (simp add: map_of_setitem)
  then have "dom (map_of (setitem d k v)) = insert k (dom (map_of d))"
    by simp
  then show ?thesis
    by (simp add: dom_map_of_conv_image_fst)
qed

lemma list_all_setitem: "list_all P d \<Longrightarrow> P (k, v) \<Longrightarrow> list_all P (setitem d k v)"
  by (induction d) auto

lemma setitem_same: "map_of d k = Some v \<Longrightarrow> setitem d k v = d"
  by (induction d) (auto split: if_splits)

lemma column_None_iff: "column df c = None \<longleftrightarrow> c \<notin> set (labels df)"
  by (simp add: column_def labels_def map_of_eq_None_iff)

lemma setitem_series_inv:
  assumes "acc_inv n df" and "length v = n"
  shows "setitem_series df c v = \<lparr>nrows = n, cols = setitem (cols df) c v\<rparr>"
proof (cases "nrows df = 0 \<and> v \<noteq> []")
  case True
  with assms have "cols df = []" by (auto simp: acc_inv_def)
  with True assms show ?thesis by (simp add: setitem_series_def)
next
  case False
  with assms have "nrows df = n" by (auto simp: acc_inv_def)
  with False assms show ?thesis by (cases df) (auto simp: setitem_series_def)
qed

lemma acc_inv_setitem_series:
  assumes "acc_inv n df" and "length v = n"
  shows "acc_inv n (setitem_series df c v)"
  using assms by (simp add: setitem_series_inv acc_inv_def list_all_setitem)


lemma find_source_length:
  "wf_dataframe df \<Longrightarrow> find_source M df c = Some v \<Longrightarrow> length v = nrows df"
proof (induction M df c rule: find_source.induct)
  case (1 df col)
  then show ?case by simp
next
  case (2 eng cn rest df col)
  have len: "\<And>l w. column df l = Some w \<Longrightarrow> length w = nrows df"
    using "2.prems"(1) by (auto simp: wf_dataframe_def column_def list_all_iff dest!: map_of_SomeD)
  from 2 show ?case by (auto split: option.splits if_splits dest: len)
qed

lemma find_source_Some:
  "find_source M df c = Some v \<Longrightarrow> \<exists>eng. (eng, c) \<in> set M \<and> column df eng = Some v"
  by (induction M df c rule: find_source.induct) (auto split: option.splits if_splits)


lemma snd_project_Cons:
  "snd (project dfi (c # pres) out) =
     (case find_source COLUMN_MAPPING dfi c of
        Some v \<Rightarrow> snd (project dfi pres (setitem_series out c v))
      | None \<Rightarrow> snd (project dfi pres out))"
  by (simp split: option.splits prod.splits)




lemma project_nrows:
  "wf_dataframe dfi \<Longrightarrow> acc_inv (nrows dfi) out \<Longrightarrow>
   nrows (snd (project dfi pres out)) =
     (if list_ex (\<lambda>c. find_source COLUMN_MAPPING dfi c \<noteq> None) pres then nrows dfi else nrows out)"
proof (induction pres arbitrary: out)
  case Nil
  then show ?case by simp
next
  case (Cons a pres)
  show ?case
  proof (cases "find_source COLUMN_MAPPING dfi a")
    case None
    with Cons show ?thesis unfolding snd_project_Cons by (auto split: option.splits)
  next
    case (Some v)
    then have len: "length v = nrows dfi" using Cons.prems(1) by (rule find_source_length[rotated])
    have inv': "acc_inv (nrows dfi) (setitem_series out a v)"
      using Cons.prems(2) len by (rule acc_inv_setitem_series)
    have "nrows (setitem_series out a v) = nrows dfi"
      using Cons.prems(2) len by (simp add: setitem_series_inv)
    with Some Cons.IH[OF Cons.prems(1) inv'] show ?thesis unfolding snd_project_Cons
      by (auto split: option.splits)
  qed
qed

lemma project_unmapped:
  "list_all (\<lambda>c. find_source COLUMN_MAPPING dfi c = None) pres \<Longrightarrow> snd (project dfi pres out) = out"
proof (induction pres arbitrary: out)
  case Nil
  then show ?case by simp
next
  case (Cons a pres)
  then show ?case unfolding snd_project_Cons by simp
qed







lemma map_of_filter_key:
  "map_of (filter (\<lambda>p. fst p \<noteq> key) cs) c = (if c = key then None else map_of cs c)"
  by (induction cs) auto

lemma reference_mapping_eq:
  "column dfr code = Some keys \<Longrightarrow>
   reference_mapping dfr code col =
     (if col = code then Inl (KeyError col)
      else (case column dfr col of
              None \<Rightarrow> Inl (KeyError col)
            | Some vals \<Rightarrow> Inr (to_dict keys vals)))"
  by (simp add: reference_mapping_def set_index_def column_def map_of_filter_key)


lemma snd_build_Cons:
  "snd (build_reference_dict dfr code (c # ms) rd) =
     (if c \<in> set (labels dfr) then
        (case reference_mapping dfr code c of
           Inl e \<Rightarrow> Inl e
         | Inr d \<Rightarrow> snd (build_reference_dict dfr code ms (setitem rd c d)))
      else snd (build_reference_dict dfr code ms rd))"
  by (simp split: sum.splits prod.splits)

lemma build_fails:
  "column dfr code = Some keys \<Longrightarrow> code \<in> set ms \<Longrightarrow>
   snd (build_reference_dict dfr code ms rd) = Inl (KeyError code)"
proof (induction ms arbitrary: rd)
  case Nil
  then show ?case by simp
next
  case (Cons c ms)
  have in_labels: "code \<in> set (labels dfr)"
    using Cons.prems(1) column_None_iff[of dfr code] by auto
  show ?case
  proof (cases "c = code")
    case True
    with in_labels Cons.prems(1) show ?thesis
      unfolding snd_build_Cons by (simp add: reference_mapping_eq)
  next
    case False
    with Cons.prems have "code \<in> set ms" by simp
    from Cons.IH[OF Cons.prems(1) this] False Cons.prems(1) show ?thesis
      unfolding snd_build_Cons
      by (auto simp: reference_mapping_eq column_None_iff split: option.splits)
  qed
qed

lemma build_succeeds:
  "column dfr code = Some keys \<Longrightarrow> code \<notin> set ms \<Longrightarrow>
   \<exists>rd'. snd (build_reference_dict dfr code ms rd) = Inr rd' \<and>
     (\<forall>col. map_of rd' col =
        (if col \<in> set ms
         then (case column dfr col of
                 Some vals \<Rightarrow> Some (to_dict keys vals)
               | None \<Rightarrow> map_of rd col)
         else map_of rd col))"
proof (induction ms arbitrary: rd)
  case Nil
  then show ?case by simp
next
  case (Cons c ms)
  from Cons.prems have ne: "c \<noteq> code" and rest: "code \<notin> set ms" by auto
  show ?case
  proof (cases "column dfr c")
    case None
    then have "c \<notin> set (labels dfr)" by (simp add: column_None_iff)
    with Cons.IH[OF Cons.prems(1) rest, of rd] None show ?thesis
      unfolding snd_build_Cons by auto
  next
    case (Some vals)
    then have "c \<in> set (labels dfr)" using column_None_iff[of dfr c] by auto
    moreover have "reference_mapping dfr code c = Inr (to_dict keys vals)"
      using Cons.prems(1) ne Some by (simp add: reference_mapping_eq)
    moreover obtain rd' where r: "snd (build_reference_dict dfr code ms
                                        (setitem rd c (to_dict keys vals))) = Inr rd'"
      and m: "\<And>col. map_of rd' col =
                (if col \<in> set ms
                 then (case column dfr col of
                         Some vals' \<Rightarrow> Some (to_dict keys vals')
                       | None \<Rightarrow> map_of (setitem rd c (to_dict keys vals)) col)
                 else map_of (setitem rd c (to_dict keys vals)) col)"
      using Cons.IH[OF Cons.prems(1) rest, of "setitem rd c (to_dict keys vals)"] by blast
    ultimately show ?thesis
      using Some unfolding snd_build_Cons
      by (auto simp: m map_of_setitem split: option.splits)
  qed
qed

lemma snd_apply_Cons:
  "snd (apply_mappings codes rd (c # ms) out) =
     (case map_of rd c of
        Some d \<Rightarrow> snd (apply_mappings codes rd ms (setitem_series out c (map_series codes d)))
      | None \<Rightarrow> snd (apply_mappings codes rd ms out))"
  by (simp split: option.splits prod.splits)

lemma length_map_series: "length (map_series codes d) = length codes"
  by (simp add: map_series_def)

lemma apply_inv:
  "acc_inv (length codes) out \<Longrightarrow> acc_inv (length codes) (snd (apply_mappings codes rd ms out))"
proof (induction ms arbitrary: out)
  case Nil
  then show ?case by simp
next
  case (Cons c ms)
  then show ?case unfolding snd_apply_Cons
    by (auto split: option.splits simp: acc_inv_setitem_series length_map_series)
qed


lemma apply_nrows:
  "acc_inv (length codes) out \<Longrightarrow>
   nrows (snd (apply_mappings codes rd ms out)) =
     (if list_ex (\<lambda>c. map_of rd c \<noteq> None) ms then length codes else nrows out)"
proof (induction ms arbitrary: out)
  case Nil
  then show ?case by simp
next
  case (Cons a ms)
  show ?case
  proof (cases "map_of rd a")
    case None
    with Cons show ?thesis unfolding snd_apply_Cons by (auto split: option.splits)
  next
    case (Some d)
    have inv': "acc_inv (length codes) (setitem_series out a (map_series codes d))"
      using Cons.prems by (simp add: acc_inv_setitem_series length_map_series)
    have "nrows (setitem_series out a (map_series codes d)) = length codes"
      using Cons.prems by (simp add: setitem_series_inv length_map_series)
    with Some Cons.IH[OF inv'] show ?thesis unfolding snd_apply_Cons
      by (auto split: option.splits)
  qed
qed

lemma apply_unmapped:
  "list_all (\<lambda>c. map_of rd c = None) ms \<Longrightarrow> snd (apply_mappings codes rd ms out) = out"
proof (induction ms arbitrary: out)
  case Nil
  then show ?case by simp
next
  case (Cons a ms)
  then show ?case unfolding snd_apply_Cons by simp
qed

lemma snd_join:
  "snd (join cfg dfi dfr out) =
     (case column dfi (material_code_eng (MATERIAL_CODE_COLUMN cfg)) of
        Some codes \<Rightarrow>
          (if MATERIAL_CODE_COLUMN cfg \<in> set (labels dfr) then
             (case snd (build_reference_dict dfr (MATERIAL_CODE_COLUMN cfg) (MATCHED_COLUMNS cfg) []) of
                Inl e \<Rightarrow> Inl e
              | Inr rd \<Rightarrow> Inr (snd (apply_mappings codes rd (MATCHED_COLUMNS cfg) out)))
           else Inr out)
      | None \<Rightarrow> Inr out)"
  by (simp add: join_def Let_def split: option.splits prod.splits sum.splits)

lemma snd_add_fixed_Cons:
  "snd (add_fixed ((c, x) # rest) out) = snd (add_fixed rest (setitem_scalar out c x))"
  by (simp split: prod.splits)

lemma add_fixed_nrows: "nrows (snd (add_fixed fx out)) = nrows out"
proof (induction fx arbitrary: out)
  case Nil
  then show ?case by simp
next
  case (Cons p fx)
  obtain c x where p: "p = (c, x)" by (cases p)
  show ?case unfolding p snd_add_fixed_Cons by (simp add: Cons.IH setitem_scalar_def)
qed

lemma add_fixed_column:
  "column (snd (add_fixed fx out)) c =
     (case map_of (rev fx) c of
        Some x \<Rightarrow> Some (replicate (nrows out) x)
      | None \<Rightarrow> column out c)"
proof (induction fx arbitrary: out)
  case Nil
  then show ?case by simp
next
  case (Cons p fx)
  obtain k x where p: "p = (k, x)" by (cases p)
  have step: "column (setitem_scalar out k x) c =
                (if c = k then Some (replicate (nrows out) x) else column out c)"
    by (simp add: setitem_scalar_def column_def map_of_setitem)
  have n: "nrows (setitem_scalar out k x) = nrows out"
    by (simp add: setitem_scalar_def)
  show ?case unfolding p snd_add_fixed_Cons
    by (simp add: Cons.IH step n map_add_def split: option.splits)
qed

lemma map_of_rev_distinct: "distinct (map fst xs) \<Longrightarrow> map_of (rev xs) k = map_of xs k"
proof (induction xs)
  case Nil
  then show ?case by simp
next
  case (Cons p xs)
  obtain a b where p: "p = (a, b)" by (cases p)
  from Cons.prems have "a \<notin> fst ` set xs" by (simp add: p)
  then have "map_of (rev xs) a = None" by (simp add: map_of_eq_None_iff)
  with Cons show ?case by (auto simp: p map_add_def split: option.splits)
qed

lemma labels_reindex: "labels (reindex_columns df order) = order"
  by (simp add: reindex_columns_def labels_def comp_def)

lemma nrows_reindex: "nrows (reindex_columns df order) = nrows df"
  by (simp add: reindex_columns_def)

lemma map_of_map_key: "map_of (map (\<lambda>c. (c, f c)) order) c = (if c \<in> set order then Some (f c) else None)"
  by (induction order) auto

lemma column_reindex:
  "column (reindex_columns df order) c =
     (if c \<in> set order
      then Some (case column df c of Some v \<Rightarrow> v | None \<Rightarrow> replicate (nrows df) NaN)
      else None)"
  by (simp add: reindex_columns_def column_def map_of_map_key)

lemma snd_accumulate:
  "snd (accumulate cfg dfi dfr) =
     (case snd (join cfg dfi dfr (snd (project dfi (PRESERVED_COLUMNS cfg) \<lparr>nrows = 0, cols = []\<rparr>))) of
        Inl e \<Rightarrow> Inl e
      | Inr out2 \<Rightarrow> Inr (snd (add_fixed (FIXED_COLUMNS cfg) out2)))"
  by (simp add: accumulate_def split: prod.splits sum.splits)


lemma written_transform:
  "written (transform e cfg dfi dfr) =
     (case snd (accumulate cfg dfi dfr) of
        Inl err \<Rightarrow> None
      | Inr acc \<Rightarrow> Some (reindex_columns acc column_order))"
  by (simp add: transform_def Let_def split: prod.splits sum.splits)

lemma returned_transform:
  "returned (transform e cfg dfi dfr) =
     (case snd (accumulate cfg dfi dfr) of
        Inl err \<Rightarrow> Inl err
      | Inr acc \<Rightarrow>
          if os_name_nt e \<and> startfile_raises e then Inl OSError
          else Inr (reindex_columns acc column_order))"
  by (simp add: transform_def Let_def split: prod.splits sum.splits)


lemma wf_acc_inv: "wf_dataframe df \<Longrightarrow> acc_inv (nrows df) df"
  by (simp add: wf_dataframe_def acc_inv_def)

lemma wf_column_length: "wf_dataframe df \<Longrightarrow> column df c = Some v \<Longrightarrow> length v = nrows df"
  by (auto simp: wf_dataframe_def column_def list_all_iff dest!: map_of_SomeD)

lemma strip_empty_iff: "strip s = [] \<longleftrightarrow> list_all py_isspace s"
proof
  assume "strip s = []"
  then have "dropWhile py_isspace (rev (dropWhile py_isspace s)) = []"
    by (simp add: strip_def)
  then have all: "\<forall>x\<in>set (dropWhile py_isspace s). py_isspace x"
    by (simp add: dropWhile_eq_Nil_conv)
  have "dropWhile py_isspace s = []"
  proof (rule ccontr)
    assume ne: "dropWhile py_isspace s \<noteq> []"
    then have "\<not> py_isspace (hd (dropWhile py_isspace s))" by (rule hd_dropWhile)
    moreover have "hd (dropWhile py_isspace s) \<in> set (dropWhile py_isspace s)"
      using ne by simp
    ultimately show False using all by blast
  qed
  then show "list_all py_isspace s"
    by (simp add: dropWhile_eq_Nil_conv list_all_iff)
next
  assume "list_all py_isspace s"
  then have "dropWhile py_isspace s = []"
    by (simp add: dropWhile_eq_Nil_conv list_all_iff)
  then show "strip s = []" by (auto simp: strip_def dest: set_dropWhileD)
qed

lemma strip_singleton: "strip s = [c] \<Longrightarrow> \<not> py_isspace c"
proof -
  assume "strip s = [c]"
  then have eq: "dropWhile py_isspace (rev (dropWhile py_isspace s)) = [c]"
    by (simp add: strip_def rev_singleton_conv)  
  then have "dropWhile py_isspace (rev (dropWhile py_isspace s)) \<noteq> []"
    by simp
  then have "\<not> py_isspace (hd (dropWhile py_isspace (rev (dropWhile py_isspace s))))"
    by (rule hd_dropWhile)
  with eq show ?thesis by simp
qed

lemma isin_blank_strip:
  "isin_blank (Text (strip s)) \<longleftrightarrow> list_all py_isspace s \<or> strip s = ustr_of ''nan''"
proof -
  have "strip s \<noteq> ustr_of '' ''"
  proof
    assume "strip s = ustr_of '' ''"
    then have "strip s = [32]" by (simp add: ustr_of_def)
    then have "\<not> py_isspace 32" by (rule strip_singleton)
    then show False by (simp add: py_isspace_def)
  qed
  then show ?thesis
    by (auto simp: isin_blank_def strip_empty_iff[symmetric])
qed

lemma no_match_enumerate:
  "\<not> list_ex Q w \<Longrightarrow> map fst (filter (\<lambda>(i, c). Q c) (enumerate n w)) = []"
  by (induction w arbitrary: n) auto

lemma first_match_enumerate:
  "list_ex Q w \<Longrightarrow>
   \<exists>rest. map fst (filter (\<lambda>(i, c). Q c) (enumerate n w)) =
            (n + length (takeWhile (\<lambda>c. \<not> Q c) w)) # rest"
proof (induction w arbitrary: n)
  case Nil
  then show ?case by simp
next
  case (Cons a w)
  show ?case
  proof (cases "Q a")
    case True
    then show ?thesis by simp
  next
    case False
    with Cons.prems have "list_ex Q w" by simp
    from Cons.IH[OF this, of "Suc n"] False show ?thesis by simp
  qed
qed

lemma takeWhile_all: "\<not> list_ex Q w \<Longrightarrow> takeWhile (\<lambda>c. \<not> Q c) w = w"
  by (induction w) auto

lemma map_of_map_snd:
  "map_of (map (\<lambda>(l, v). (l, f v)) cs) c = map_option f (map_of cs c)"
  by (induction cs) auto

lemma column_iloc_upto: "column (iloc_upto df k) c = map_option (take k) (column df c)"
  by (simp add: iloc_upto_def column_def map_of_map_snd)

lemma reassign_fold_id:
  assumes "list_all (\<lambda>p. length (snd p) = nrows df) (cols df)"
  shows "fold (\<lambda>c d. case column d c of Some v \<Rightarrow> setitem_series d c v | None \<Rightarrow> d) L df = df"
proof (induction L)
  case Nil
  show ?case by simp
next
  case (Cons c L)
  have "(case column df c of Some v \<Rightarrow> setitem_series df c v | None \<Rightarrow> df) = df"
  proof (cases "column df c")
    case None
    then show ?thesis by simp
  next
    case (Some v)
    then have "(c, v) \<in> set (cols df)" by (auto simp: column_def dest: map_of_SomeD)
    with assms have len: "length v = nrows df" by (auto simp: list_all_iff)
    have "acc_inv (nrows df) df" using assms by (simp add: acc_inv_def)
    then have "setitem_series df c v = \<lparr>nrows = nrows df, cols = setitem (cols df) c v\<rparr>"
      using len by (rule setitem_series_inv)
    also have "\<dots> = df" using Some by (simp add: column_def setitem_same)
    finally show ?thesis using Some by simp
  qed
  with Cons show ?case by simp
qed

lemma reassign_object_columns_id:
  "list_all (\<lambda>p. length (snd p) = nrows df) (cols df) \<Longrightarrow> reassign_object_columns df = df"
  by (simp add: reassign_object_columns_def reassign_fold_id)


lemma map_fst_setitem_present: "k \<in> fst ` set d \<Longrightarrow> map fst (setitem d k v) = map fst d"
  by (induction d) force+

lemma labels_iloc_upto: "labels (iloc_upto df k) = labels df"
  by (simp add: iloc_upto_def labels_def split_def comp_def)

lemma row_filter_eq:
  fixes str_of :: "'n \<Rightarrow> ustr" and df :: "'n dataframe"
  assumes wf: "wf_dataframe df" and col: "column df NO_label = Some v"
  defines "df1 \<equiv> \<lparr>nrows = nrows df, cols = setitem (cols df) NO_label (clean_no str_of v)\<rparr>"
  shows "row_filter str_of df =
           (if list_ex isin_blank (clean_no str_of v)
            then iloc_upto df1 (length (takeWhile (\<lambda>c. \<not> isin_blank c) (clean_no str_of v)))
            else df1)"
proof -
  have len: "length (clean_no str_of v) = nrows df"
    using wf_column_length[OF wf col] by (simp add: clean_no_def)
  have s: "setitem_series df NO_label (clean_no str_of v) = df1"
    unfolding df1_def using wf_acc_inv[OF wf] len by (rule setitem_series_inv)
  have c1: "column df1 NO_label = Some (clean_no str_of v)"
    by (simp add: df1_def column_def map_of_setitem)
  show ?thesis
  proof (cases "list_ex isin_blank (clean_no str_of v)")
    case True
    from first_match_enumerate[OF True, of 0] obtain rest where
      "map fst (filter (\<lambda>(i, c). isin_blank c) (enumerate 0 (clean_no str_of v))) =
         length (takeWhile (\<lambda>c. \<not> isin_blank c) (clean_no str_of v)) # rest"
      by auto
    with True show ?thesis by (simp add: row_filter_def col s c1)
  next
    case False
    from no_match_enumerate[OF False, of 0] False show ?thesis
      by (simp add: row_filter_def col s c1)
  qed
qed


lemma reindex_columns_eq:
  "reindex_columns df order =
     \<lparr>nrows = nrows df,
      cols = map (\<lambda>c. (c, case column df c of
                              Some v \<Rightarrow> v
                            | None \<Rightarrow> replicate (nrows df) NaN)) order\<rparr>"
  by (rule dataframe.equality) (simp_all add: reindex_columns_def)

lemma join_skipped:
  assumes "column df_input (material_code_eng (MATERIAL_CODE_COLUMN cfg)) = None \<or>
           MATERIAL_CODE_COLUMN cfg \<notin> set (labels df_reference) \<or>
           list_all (\<lambda>c. c \<notin> set (labels df_reference)) (MATCHED_COLUMNS cfg)"
  shows "snd (join cfg df_input df_reference out) = Inr out"
proof (cases "column df_input (material_code_eng (MATERIAL_CODE_COLUMN cfg))")
  case None
  then show ?thesis by (simp add: snd_join)
next
  case (Some codes)
  show ?thesis
  proof (cases "MATERIAL_CODE_COLUMN cfg \<in> set (labels df_reference)")
    case False
    with Some show ?thesis by (simp add: snd_join)
  next
    case True
    with Some assms
    have none: "list_all (\<lambda>c. c \<notin> set (labels df_reference)) (MATCHED_COLUMNS cfg)"
      by simp
    from True obtain keys where keys: "column df_reference (MATERIAL_CODE_COLUMN cfg) = Some keys"
      using column_None_iff[of df_reference "MATERIAL_CODE_COLUMN cfg"] by auto
    have notin: "MATERIAL_CODE_COLUMN cfg \<notin> set (MATCHED_COLUMNS cfg)"
      using none True by (auto simp: list_all_iff)
    from build_succeeds[OF keys notin, of "[]"] obtain rd where
      rd: "snd (build_reference_dict df_reference (MATERIAL_CODE_COLUMN cfg)
                 (MATCHED_COLUMNS cfg) []) = Inr rd"
      and m: "\<And>col. map_of rd col =
                (if col \<in> set (MATCHED_COLUMNS cfg)
                 then (case column df_reference col of
                         Some vals \<Rightarrow> Some (to_dict keys vals)
                       | None \<Rightarrow> map_of [] col)
                 else map_of [] col)"
      by blast
    have "list_all (\<lambda>c. map_of rd c = None) (MATCHED_COLUMNS cfg)"
      using none by (auto simp: list_all_iff m column_None_iff[symmetric])
    then have "snd (apply_mappings codes rd (MATCHED_COLUMNS cfg) out) = out"
      by (rule apply_unmapped)
    with Some True rd show ?thesis by (simp add: snd_join)
  qed
qed







text \<open>
  The one exception the table building can raise: the \<^verbatim>\<open>KeyError\<close> of line 163 when both
  code columns exist and the code column is itself listed in \<^verbatim>\<open>MATCHED_COLUMNS\<close>. In every
  other case the output table is written.
\<close>

lemma join_raises_iff:
  "(\<exists>err. snd (join cfg df_input df_reference out) = Inl err) \<longleftrightarrow>
     column df_input (material_code_eng (MATERIAL_CODE_COLUMN cfg)) \<noteq> None \<and>
     MATERIAL_CODE_COLUMN cfg \<in> set (labels df_reference) \<and>
     MATERIAL_CODE_COLUMN cfg \<in> set (MATCHED_COLUMNS cfg)"
proof (cases "column df_input (material_code_eng (MATERIAL_CODE_COLUMN cfg))")
  case None
  then show ?thesis by (simp add: snd_join)
next
  case (Some codes)
  show ?thesis
  proof (cases "column df_reference (MATERIAL_CODE_COLUMN cfg)")
    case None
    then have "MATERIAL_CODE_COLUMN cfg \<notin> set (labels df_reference)"
      by (simp add: column_None_iff)
    with Some show ?thesis by (simp add: snd_join)
  next
    case (Some keys)
    then have inl: "MATERIAL_CODE_COLUMN cfg \<in> set (labels df_reference)"
      using column_None_iff[of df_reference "MATERIAL_CODE_COLUMN cfg"] by auto
    show ?thesis
    proof (cases "MATERIAL_CODE_COLUMN cfg \<in> set (MATCHED_COLUMNS cfg)")
      case True
      from build_fails[OF Some True, of "[]"] inl True
        \<open>column df_input (material_code_eng (MATERIAL_CODE_COLUMN cfg)) = Some codes\<close>
      show ?thesis by (simp add: snd_join)
    next
      case False
      from build_succeeds[OF Some False, of "[]"] obtain rd where
        "snd (build_reference_dict df_reference (MATERIAL_CODE_COLUMN cfg)
               (MATCHED_COLUMNS cfg) []) = Inr rd"
        by blast
      with inl False
        \<open>column df_input (material_code_eng (MATERIAL_CODE_COLUMN cfg)) = Some codes\<close>
      show ?thesis by (simp add: snd_join)
    qed
  qed
qed

lemma written_None_iff:
  "written (transform e cfg df_input df_reference) = None \<longleftrightarrow>
     column df_input (material_code_eng (MATERIAL_CODE_COLUMN cfg)) \<noteq> None \<and>
     MATERIAL_CODE_COLUMN cfg \<in> set (labels df_reference) \<and>
     MATERIAL_CODE_COLUMN cfg \<in> set (MATCHED_COLUMNS cfg)"
proof -
  have "written (transform e cfg df_input df_reference) = None \<longleftrightarrow>
          (\<exists>err. snd (join cfg df_input df_reference
                        (snd (project df_input (PRESERVED_COLUMNS cfg) \<lparr>nrows = 0, cols = []\<rparr>))) =
                  Inl err)"
    by (simp add: written_transform snd_accumulate split: sum.splits)
  then show ?thesis by (simp only: join_raises_iff)
qed

lemma nothing_populated:
  assumes np: "list_all (\<lambda>c. find_source COLUMN_MAPPING df_input c = None) (PRESERVED_COLUMNS cfg)"
    and nj: "column df_input (material_code_eng (MATERIAL_CODE_COLUMN cfg)) = None \<or>
             MATERIAL_CODE_COLUMN cfg \<notin> set (labels df_reference) \<or>
             list_all (\<lambda>c. c \<notin> set (labels df_reference)) (MATCHED_COLUMNS cfg)"
  shows "written (transform e cfg df_input df_reference) =
           Some \<lparr>nrows = 0, cols = map (\<lambda>c. (c, [])) column_order\<rparr>"
proof -
  define acc where "acc = snd (add_fixed (FIXED_COLUMNS cfg) \<lparr>nrows = 0, cols = []\<rparr>)"
  have p: "snd (project df_input (PRESERVED_COLUMNS cfg) \<lparr>nrows = 0, cols = []\<rparr>) =
             \<lparr>nrows = 0, cols = []\<rparr>"
    using np by (rule project_unmapped)
  have a: "snd (accumulate cfg df_input df_reference) = Inr acc"
    by (simp add: snd_accumulate p join_skipped[OF nj] acc_def)
  have n: "nrows acc = 0" by (simp add: acc_def add_fixed_nrows)
  have c: "(case column acc c of Some v \<Rightarrow> v | None \<Rightarrow> replicate (nrows acc) NaN) = []" for c
  proof -
    have "column acc c = None \<or> column acc c = Some []"
      unfolding acc_def add_fixed_column by (simp add: column_def split: option.splits)
    with n show ?thesis by auto
  qed
  have "reindex_columns acc column_order =
          \<lparr>nrows = nrows acc,
           cols = map (\<lambda>c. (c, case column acc c of
                                   Some v \<Rightarrow> v
                                 | None \<Rightarrow> replicate (nrows acc) NaN)) column_order\<rparr>"
    by (rule reindex_columns_eq)
  also have "\<dots> = \<lparr>nrows = 0, cols = map (\<lambda>c. (c, [])) column_order\<rparr>"
    by (simp only: c) (simp add: n)
  finally show ?thesis by (simp add: written_transform a)
qed

subsection \<open>The example run\<close>

lemma example_accumulate:
  "snd (accumulate example_config example_input example_reference) =
     Inr \<lparr>nrows = 2,
          cols = [(item_number, [Text (ustr_of ''1''), Text (ustr_of ''2'')]),
                  (product_name, [Text (ustr_of ''GOODS''), Text (ustr_of ''GOODS'')]),
                  (product_code, [Scalar 8473, NaN]),
                  (currency, [Text (ustr_of ''USD''), Text (ustr_of ''USD'')]),
                  (ustr_of ''FixedColumn1'',
                   [Text (ustr_of ''Fixed Value 1''), Text (ustr_of ''Fixed Value 1'')])]\<rparr>"
  by (simp add: run_defs name_defs example_config_def example_input_def example_reference_def)

lemma example_run:
  "written (transform e example_config example_input example_reference) = Some example_output"
  by (simp add: written_transform example_accumulate)
     (simp add: reindex_columns_def column_order_def column_def example_output_def name_defs
           numeral_2_eq_2)




lemma example_code_loaded:
  "load_input decimal example_code_input_file = Inr example_code_table"
proof -
  have s: "strip (ustr_of ''NO.'') = ustr_of ''NO.''" "strip (ustr_of ''Code'') = ustr_of ''Code''"
    by (simp_all add: ustr_of_def py_isspace_def strip_def)
  show ?thesis
    by (simp add: load_input_def read_excel_def sheet_to_read_def example_code_input_file_def
          example_banner_def cell_at_def drop_row0_def strip_columns_def empty_df_def s
          reassign_object_columns_id example_code_table_def)
qed

lemma example_code_filtered: "row_filter decimal example_code_table = example_code_table"
proof -
  have s: "strip (ustr_of ''1'') = ustr_of ''1''" "strip (ustr_of ''2'') = ustr_of ''2''"
    by (simp_all add: ustr_of_def py_isspace_def strip_def)
  have b: "\<not> isin_blank (Text (ustr_of ''1'') :: nat cell)"
          "\<not> isin_blank (Text (ustr_of ''2'') :: nat cell)"
    by (simp_all add: isin_blank_def ustr_of_def)
  show ?thesis
    by (simp add: row_filter_def NO_label_def column_def clean_no_def setitem_series_def Let_def
          s b example_code_table_def)
qed

lemma example_code_reference_read:
  "read_excel decimal 0 0 example_code_reference_file = Inr example_code_reference"
  by (simp add: read_excel_def example_code_reference_file_def cell_at_def
        example_code_reference_def)

lemma example_code_transform:
  "written (transform e example_code_config example_code_table example_code_reference) =
     Some example_code_output"
  by (simp add: run_defs name_defs example_code_config_def example_code_table_def
        example_code_reference_def example_code_output_def)

section \<open>The row filter\<close>

text \<open>
  Claim C4. With the item numbers converted to text and trimmed, the filter keeps exactly
  the rows before the first one whose item number is empty or only white space, or is
  \<^verbatim>\<open>nan\<close> once trimmed: the table has \<open>k\<close> rows, \<open>k\<close> the length of the longest run of
  leading rows with none of these, every column is cut to its first \<open>k\<close> cells, and the
  item-number column holds the trimmed texts. A table with no \<^verbatim>\<open>NO.\<close> column is left as
  it is.
\<close>

theorem row_filter_truncation:
  assumes wf: "wf_dataframe df"
  shows "(column df NO_label = None \<longrightarrow> row_filter str_of df = df) \<and>
         (\<forall>v. column df NO_label = Some v \<longrightarrow>
            (let k = length (takeWhile
                       (\<lambda>c. \<not> (list_all py_isspace (astype_str str_of c) \<or>
                                strip (astype_str str_of c) = ustr_of ''nan'')) v)
             in nrows (row_filter str_of df) = k \<and>
                labels (row_filter str_of df) = labels df \<and>
                (\<forall>c. column (row_filter str_of df) c =
                   (if c = NO_label
                    then Some (map (\<lambda>x. Text (strip (astype_str str_of x))) (take k v))
                    else map_option (take k) (column df c)))))"
proof (intro conjI allI impI)
  assume "column df NO_label = None"
  then show "row_filter str_of df = df" by (simp add: row_filter_def)
next
  fix v
  assume col: "column df NO_label = Some v"
  define cleaned where "cleaned = clean_no str_of v"
  define df1 where "df1 = \<lparr>nrows = nrows df, cols = setitem (cols df) NO_label cleaned\<rparr>"
  define k where "k = length (takeWhile
                       (\<lambda>c. \<not> (list_all py_isspace (astype_str str_of c) \<or>
                                strip (astype_str str_of c) = ustr_of ''nan'')) v)"
  have lenv: "length v = nrows df" by (rule wf_column_length[OF wf col])
  have k': "k = length (takeWhile (\<lambda>c. \<not> isin_blank c) cleaned)"
    by (simp add: k_def cleaned_def clean_no_def takeWhile_map comp_def isin_blank_strip)
  have kle: "k \<le> nrows df"
    unfolding k_def using length_takeWhile_le[of _ v] lenv by simp
  have rf: "row_filter str_of df = (if list_ex isin_blank cleaned then iloc_upto df1 k else df1)"
    unfolding k' cleaned_def df1_def by (rule row_filter_eq[OF wf col])
  have full: "\<not> list_ex isin_blank cleaned \<Longrightarrow> k = nrows df"
    unfolding k' using lenv by (simp add: takeWhile_all cleaned_def clean_no_def)
  have in_keys: "NO_label \<in> fst ` set (cols df)"
    using col by (auto simp: column_def dest!: map_of_SomeD intro: rev_image_eqI)
  have lab1: "labels df1 = labels df"
    by (simp add: df1_def labels_def map_fst_setitem_present[OF in_keys])
  have col1: "column df1 c = (if c = NO_label then Some cleaned else column df c)" for c
    by (simp add: df1_def column_def map_of_setitem)
  have takec: "take k cleaned = map (\<lambda>x. Text (strip (astype_str str_of x))) (take k v)"
    by (simp add: cleaned_def clean_no_def take_map)
  have n: "nrows (row_filter str_of df) = k"
    using kle full by (auto simp: rf iloc_upto_def df1_def)
  have l: "labels (row_filter str_of df) = labels df"
    by (simp add: rf labels_iloc_upto lab1)
  have c: "column (row_filter str_of df) c =
             (if c = NO_label
              then Some (map (\<lambda>x. Text (strip (astype_str str_of x))) (take k v))
              else map_option (take k) (column df c))" for c
  proof (cases "list_ex isin_blank cleaned")
    case True
    then show ?thesis by (simp add: rf column_iloc_upto col1 takec)
  next
    case False
    then have kn: "k = nrows df" by (rule full)
    have "length cleaned = nrows df" using lenv by (simp add: cleaned_def clean_no_def)
    then have a: "Some cleaned = Some (take k cleaned)" by (simp add: kn)
    have b: "column df c = map_option (take k) (column df c)"
    proof (cases "column df c")
      case None
      then show ?thesis by simp
    next
      case (Some w)
      with wf_column_length[OF wf Some] show ?thesis by (simp add: kn)
    qed
    from False show ?thesis using a b by (simp add: rf col1 takec)
  qed
  show "let k = length (takeWhile
                       (\<lambda>c. \<not> (list_all py_isspace (astype_str str_of c) \<or>
                                strip (astype_str str_of c) = ustr_of ''nan'')) v)
        in nrows (row_filter str_of df) = k \<and>
           labels (row_filter str_of df) = labels df \<and>
           (\<forall>c. column (row_filter str_of df) c =
              (if c = NO_label
               then Some (map (\<lambda>x. Text (strip (astype_str str_of x))) (take k v))
               else map_option (take k) (column df c)))"
    unfolding Let_def k_def[symmetric] using n l c by blast
qed


text \<open>
  The item numbers \<^verbatim>\<open>["1", "2", "", "4"]\<close>: the rows of \<^verbatim>\<open>"1"\<close> and \<^verbatim>\<open>"2"\<close> remain.
\<close>

theorem row_filter_truncation_witness:
  "wf_dataframe example_items \<and>
   column example_items NO_label =
     Some [Text (ustr_of ''1''), Text (ustr_of ''2''), Text [], Text (ustr_of ''4'')] \<and>
   nrows (row_filter decimal example_items) = 2 \<and>
   column (row_filter decimal example_items) NO_label =
     Some [Text (ustr_of ''1''), Text (ustr_of ''2'')] \<and>
   column (row_filter decimal example_items) (ustr_of ''Qty'') = Some [Scalar 10, Scalar 20]"
proof -
  have wf: "wf_dataframe example_items"
    by (simp add: wf_dataframe_def example_items_def labels_def ustr_of_def)
  have col: "column example_items NO_label =
               Some [Text (ustr_of ''1''), Text (ustr_of ''2''), Text [], Text (ustr_of ''4'')]"
    by (simp add: column_def example_items_def NO_label_def)
  have qty: "column example_items (ustr_of ''Qty'') = Some [Scalar 10, Scalar 20, NaN, Scalar 40]"
    by (simp add: column_def example_items_def ustr_of_def)
  have ne: "ustr_of ''Qty'' \<noteq> NO_label"
    by (simp add: NO_label_def ustr_of_def)
  have k: "length (takeWhile
             (\<lambda>c. \<not> (list_all py_isspace (astype_str decimal c) \<or>
                      strip (astype_str decimal c) = ustr_of ''nan''))
             [Text (ustr_of ''1''), Text (ustr_of ''2''), Text [], Text (ustr_of ''4'') :: nat cell]) = 2"
    by (simp add: ustr_of_def py_isspace_def strip_def)
  have s: "strip (ustr_of ''1'') = ustr_of ''1''" "strip (ustr_of ''2'') = ustr_of ''2''"
    by (simp_all add: ustr_of_def py_isspace_def strip_def)
  note t = row_filter_truncation[OF wf, of decimal, THEN conjunct2, rule_format, OF col,
             unfolded Let_def k]
  have n: "nrows (row_filter decimal example_items) = 2"
    using t by (rule conjunct1)
  have c: "column (row_filter decimal example_items) c =
           (if c = NO_label
            then Some (map (\<lambda>x. Text (strip (astype_str decimal x)))
                   (take 2 [Text (ustr_of ''1''), Text (ustr_of ''2''), Text [], Text (ustr_of ''4'')]))
            else map_option (take 2) (column example_items c))" for c
    using t by blast
  show ?thesis using wf col n c[of NO_label] c[of "ustr_of ''Qty''"] qty ne
    by (simp add: s)
qed

section \<open>The table loader\<close>





section \<open>The lookup join\<close>




section \<open>The code column before the join\<close>

text \<open>
  Claim C7 does not hold of the code. The loop of lines 91 and 92, whose comment announces
  the stripping of white space from the string data of all columns, assigns every column
  to itself, and line 172 looks the code values up as they were read. In the run below the
  first source row has the code \<^verbatim>\<open>"A1 "\<close>, with a trailing blank, and the second \<^verbatim>\<open>"A1"\<close>;
  the reference table has the key \<^verbatim>\<open>"A1"\<close>. Only the second row is matched.
\<close>

theorem code_column_not_normalized:
  "written (convert_excel example_env decimal example_code_config
              example_code_input_file example_code_reference_file) =
     Some example_code_output \<and>
   column example_code_output product_code = Some [NaN, Scalar 8471]"
  by (simp add: convert_excel_def Let_def example_code_loaded example_code_filtered
        example_code_reference_read example_code_transform)
     (simp add: example_code_output_def column_def name_defs)

section \<open>The canonical shape\<close>

text \<open>
  Claim C2. Whenever the run writes an output table (it does unless line 163 raises, see
  \<open>written_None_iff\<close>), its columns are exactly the 15 names of \<^verbatim>\<open>column_order\<close>, in
  that order: a canonical name the accumulated table has a column for keeps that column,
  a canonical name it has none for is a column of NaN, and an accumulated column with any
  other name is gone.
\<close>

theorem canonical_shape:
  assumes w: "written (transform e cfg df_input df_reference) = Some out"
  shows "labels out = column_order \<and> length (labels out) = 15 \<and>
         (\<exists>printed acc.
            accumulate cfg df_input df_reference = (printed, Inr acc) \<and>
            nrows out = nrows acc \<and>
            (\<forall>c. column out c =
               (if c \<in> set column_order
                then Some (case column acc c of
                             Some v \<Rightarrow> v
                           | None \<Rightarrow> replicate (nrows acc) NaN)
                else None)))"
proof -
  obtain printed r where a: "accumulate cfg df_input df_reference = (printed, r)"
    by (cases "accumulate cfg df_input df_reference")
  from w a obtain acc where r: "r = Inr acc" and out: "out = reindex_columns acc column_order"
    by (cases r) (auto simp: written_transform)
  have "labels out = column_order" by (simp add: out labels_reindex)
  moreover have "length column_order = 15" by (simp add: column_order_def)
  moreover have "nrows out = nrows acc" by (simp add: out nrows_reindex)
  moreover have "\<forall>c. column out c =
               (if c \<in> set column_order
                then Some (case column acc c of
                             Some v \<Rightarrow> v
                           | None \<Rightarrow> replicate (nrows acc) NaN)
                else None)"
    by (simp add: out column_reindex)
  ultimately show ?thesis using a r by auto
qed

theorem canonical_shape_witness:
  "written (transform example_env example_config example_input example_reference) =
     Some example_output \<and>
   labels example_output = column_order \<and>
   column example_output (ustr_of ''FixedColumn1'') = None \<and>
   column example_output model_number = Some [NaN, NaN]"
proof -
  have w: "written (transform example_env example_config example_input example_reference) =
             Some example_output"
    by (rule example_run)
  have "labels example_output = column_order"
    using canonical_shape[OF w] by (rule conjunct1)
  moreover have "column example_output (ustr_of ''FixedColumn1'') = None"
    by (simp add: example_output_def column_def name_defs)
  moreover have "column example_output model_number = Some [NaN, NaN]"
    by (simp add: example_output_def column_def name_defs)
  ultimately show ?thesis using w by simp
qed

section \<open>Preserved columns\<close>





section \<open>Fixed columns\<close>

text \<open>
  Claim C5, as the code has it. For every item of \<^verbatim>\<open>FIXED_COLUMNS\<close> whose name is one of
  the 15 canonical names, every row of that output column is the configured constant,
  whatever the projection and the join had put there.
\<close>

theorem fixed_columns_win:
  assumes cfg: "wf_config cfg"
    and pair: "(name, val) \<in> set (FIXED_COLUMNS cfg)"
    and canon: "name \<in> set column_order"
    and w: "written (transform e cfg df_input df_reference) = Some out"
  shows "column out name = Some (replicate (nrows out) val)"
proof -
  from w obtain acc where acc: "snd (accumulate cfg df_input df_reference) = Inr acc"
    and out: "out = reindex_columns acc column_order"
    by (auto simp: written_transform split: sum.splits)
  from acc obtain out2 where
    j: "snd (join cfg df_input df_reference
              (snd (project df_input (PRESERVED_COLUMNS cfg) \<lparr>nrows = 0, cols = []\<rparr>))) = Inr out2"
    and a: "acc = snd (add_fixed (FIXED_COLUMNS cfg) out2)"
    by (auto simp: snd_accumulate split: sum.splits)
  have "map_of (FIXED_COLUMNS cfg) name = Some val"
    using cfg pair by (simp add: wf_config_def)
  then have "map_of (rev (FIXED_COLUMNS cfg)) name = Some val"
    using cfg by (simp add: wf_config_def map_of_rev_distinct)
  then have "column acc name = Some (replicate (nrows acc) val)"
    by (simp add: a add_fixed_column add_fixed_nrows)
  with canon show ?thesis by (simp add: out column_reindex nrows_reindex)
qed

theorem fixed_columns_win_witness:
  "wf_config example_config \<and>
   (currency, Text (ustr_of ''USD'')) \<in> set (FIXED_COLUMNS example_config) \<and>
   currency \<in> set column_order \<and>
   written (transform example_env example_config example_input example_reference) =
     Some example_output \<and>
   column example_output currency = Some [Text (ustr_of ''USD''), Text (ustr_of ''USD'')]"
proof -
  have c: "wf_config example_config"
    by (simp add: wf_config_def example_config_def name_defs)
  have p: "(currency, Text (ustr_of ''USD'')) \<in> set (FIXED_COLUMNS example_config)"
    by (simp add: example_config_def)
  have o: "currency \<in> set column_order"
    by (simp add: column_order_def)
  have w: "written (transform example_env example_config example_input example_reference) =
             Some example_output"
    by (rule example_run)
  have n: "nrows example_output = 2" by (simp add: example_output_def)
  from fixed_columns_win[OF c p o w] c p o w show ?thesis
    by (simp add: n numeral_2_eq_2)
qed

text \<open>
  Claim C5 as stated fails for a fixed column whose name is not canonical, such as the
  default \<^verbatim>\<open>FixedColumn1\<close>: line 187 drops it, and the output has no such column.
\<close>

theorem fixed_column_outside_canonical_order_dropped:
  "(ustr_of ''FixedColumn1'', Text (ustr_of ''Fixed Value 1'')) \<in> set (FIXED_COLUMNS example_config) \<and>
   written (transform example_env example_config example_input example_reference) =
     Some example_output \<and>
   nrows example_output = 2 \<and>
   column example_output (ustr_of ''FixedColumn1'') = None \<and>
   ustr_of ''FixedColumn1'' \<notin> set (labels example_output)"
  by (simp add: example_run)
     (simp add: example_config_def example_output_def column_def labels_def name_defs)


section \<open>Opening the output file\<close>

text \<open>
  Claim C8, as the code has it. The table written and the lines printed do not depend on
  the platform or on what \<^verbatim>\<open>os.startfile\<close> does. The function returns the written table
  unless it runs on Windows and \<^verbatim>\<open>os.startfile\<close> raises; then the exception leaves
  \<^verbatim>\<open>convert_excel\<close>, with the file already written.
\<close>

theorem auto_open_failure_propagates:
  assumes w: "written (transform e cfg df_input df_reference) = Some out"
  shows "written (transform e' cfg df_input df_reference) = Some out \<and>
         returned (transform e cfg df_input df_reference) =
           (if os_name_nt e \<and> startfile_raises e then Inl OSError else Inr out)"
proof -
  from w obtain acc where acc: "snd (accumulate cfg df_input df_reference) = Inr acc"
    and out: "out = reindex_columns acc column_order"
    by (auto simp: written_transform split: sum.splits)
  show ?thesis by (simp add: written_transform returned_transform acc out)
qed

theorem auto_open_failure_propagates_witness:
  "written (transform \<lparr>os_name_nt = True, startfile_raises = False\<rparr>
              example_config example_input example_reference) = Some example_output \<and>
   written (transform example_env example_config example_input example_reference) =
     Some example_output \<and>
   returned (transform \<lparr>os_name_nt = True, startfile_raises = False\<rparr>
               example_config example_input example_reference) = Inr example_output"
proof -
  have w: "written (transform \<lparr>os_name_nt = True, startfile_raises = False\<rparr>
              example_config example_input example_reference) = Some example_output"
    by (rule example_run)
  from auto_open_failure_propagates[OF w, of example_env] w show ?thesis by simp
qed

text \<open>
  Claim C8 as stated fails: lines 197 and 198 call \<^verbatim>\<open>os.startfile\<close> with no handler, so
  its failure ends the run in an error.
\<close>

theorem auto_open_failure_is_an_error:
  "written (transform \<lparr>os_name_nt = True, startfile_raises = True\<rparr>
              example_config example_input example_reference) = Some example_output \<and>
   returned (transform \<lparr>os_name_nt = True, startfile_raises = True\<rparr>
               example_config example_input example_reference) = Inl OSError"
  by (simp add: example_run returned_transform example_accumulate)

section \<open>Determinism\<close>


section \<open>Runs that populate nothing\<close>

text \<open>
  Claim C10. When no preserved name is mapped to a column of the input, and the join
  populates nothing because a code column is missing or no matched column is in the
  reference table, the output has the 15 canonical columns and no row, however many rows
  the input has.
\<close>

theorem zero_rows_when_nothing_populated:
  assumes np: "list_all (\<lambda>c. find_source COLUMN_MAPPING df_input c = None) (PRESERVED_COLUMNS cfg)"
    and nj: "column df_input (material_code_eng (MATERIAL_CODE_COLUMN cfg)) = None \<or>
             MATERIAL_CODE_COLUMN cfg \<notin> set (labels df_reference) \<or>
             list_all (\<lambda>c. c \<notin> set (labels df_reference)) (MATCHED_COLUMNS cfg)"
  shows "written (transform e cfg df_input df_reference) =
           Some \<lparr>nrows = 0, cols = map (\<lambda>c. (c, [])) column_order\<rparr>"
  using np nj by (rule nothing_populated)

theorem zero_rows_when_nothing_populated_witness:
  "list_all (\<lambda>c. find_source COLUMN_MAPPING example_unmapped_input c = None)
     (PRESERVED_COLUMNS (default_config :: nat config)) \<and>
   list_all (\<lambda>c. c \<notin> set (labels example_unmatched_reference))
     (MATCHED_COLUMNS (default_config :: nat config)) \<and>
   nrows example_unmapped_input = 3 \<and>
   written (transform example_env default_config example_unmapped_input
              example_unmatched_reference) =
     Some \<lparr>nrows = 0, cols = zip column_order (replicate 15 [])\<rparr>"
proof -
  have np: "list_all (\<lambda>c. find_source COLUMN_MAPPING example_unmapped_input c = None)
              (PRESERVED_COLUMNS (default_config :: nat config))"
    by (simp add: default_config_def COLUMN_MAPPING_def example_unmapped_input_def column_def
          name_defs)
  have nm: "list_all (\<lambda>c. c \<notin> set (labels example_unmatched_reference))
              (MATCHED_COLUMNS (default_config :: nat config))"
    by (simp add: default_config_def example_unmatched_reference_def labels_def name_defs)
  have z: "map (\<lambda>c. (c, [])) column_order = zip column_order (replicate 15 [])"
    by (simp add: column_order_def eval_nat_numeral)
  have nj: "column example_unmapped_input
              (material_code_eng (MATERIAL_CODE_COLUMN (default_config :: nat config))) = None \<or>
            MATERIAL_CODE_COLUMN (default_config :: nat config)
              \<notin> set (labels example_unmatched_reference) \<or>
            list_all (\<lambda>c. c \<notin> set (labels example_unmatched_reference))
              (MATCHED_COLUMNS (default_config :: nat config))"
    using nm by simp
  from zero_rows_when_nothing_populated[OF np nj, of example_env] nm np
  show ?thesis by (simp add: z example_unmapped_input_def)
qed


end
